theory Spec2Isabelle
  imports Main
begin

section \<open>Values exchanged with the client\<close>

text \<open>
  Request and response bodies are JSON. A request body is the dict obtained from the
  JSON object the client sent (a map from key to value); a response body is the JSON
  value the application serialises.
\<close>

datatype json =
    JNull
  | JString string
  | JNumber int
  | JBool bool
  | JArray "json list"
  | JObject "(string \<times> json) list"

type_synonym payload = "string \<rightharpoonup> json"

text \<open>
  Exceptions that leave a function. \<open>HTTPException\<close> is raised by the handlers
  themselves; \<open>RequestValidationError\<close> by the validation of a request body against
  its schema; \<open>IntegrityError\<close> by the store when a commit violates a constraint of the
  table; \<open>InvalidRequestError\<close> by a refresh of an object that has no row;
  \<open>ValueError\<close> by an assignment to an attribute the model does not declare;
  \<open>ResponseValidationError\<close> by the serialisation of a returned object that does not
  fit the response model.
\<close>

datatype error =
    HTTPException nat string
  | RequestValidationError
  | ResponseValidationError
  | IntegrityError
  | InvalidRequestError
  | ValueError

section \<open>Schema layer (models.py)\<close>

text \<open>
  \<open>StudentBase\<close> holds the four shared fields; \<open>StudentCreate\<close> extends it with the
  password and \<open>StudentRead\<close> adds nothing. They are validated models: a required
  \<open>str\<close> field holds a string, \<open>email: str | None\<close> holds a string or \<open>None\<close>.
\<close>

record StudentBase =
  matric_number :: string
  first_name :: string
  last_name :: string
  email :: "string option"

record StudentCreate = StudentBase +
  password :: string

type_synonym StudentRead = StudentBase

text \<open>
  \<open>StudentUpdate\<close>: every field is \<open>str | None = None\<close>. Besides the field values the
  model remembers which fields the caller supplied (\<open>model_fields_set\<close>).
\<close>

record StudentUpdate =
  first_name :: "string option"
  last_name :: "string option"
  email :: "string option"
  password :: "string option"
  model_fields_set :: "string set"

text \<open>
  \<open>Student\<close> is the table model. A table model does not validate assignments, so each
  attribute of the object may hold \<open>None\<close>; it is the table that constrains what can
  be committed (see \<open>not_null_ok\<close>).
\<close>

record Student =
  matric_number :: "string option"
  first_name :: "string option"
  last_name :: "string option"
  email :: "string option"
  password :: "string option"

subsection \<open>Validation of request bodies\<close>


text \<open>
  A field annotated \<open>str | None = None\<close>: an absent key takes the default, a present
  key must hold a string or null.
\<close>

fun opt_str_field :: "json option \<Rightarrow> error + string option" where
  "opt_str_field None = Inr None"
| "opt_str_field (Some JNull) = Inr None"
| "opt_str_field (Some (JString s)) = Inr (Some s)"
| "opt_str_field (Some _) = Inl RequestValidationError"


definition StudentUpdate_fields :: "string list" where
  "StudentUpdate_fields = [''first_name'', ''last_name'', ''email'', ''password'']"

definition StudentUpdate_validate :: "payload \<Rightarrow> error + StudentUpdate" where
  "StudentUpdate_validate body =
     (case (opt_str_field (body ''first_name''), opt_str_field (body ''last_name''),
            opt_str_field (body ''email''), opt_str_field (body ''password'')) of
        (Inr f, Inr l, Inr e, Inr p) \<Rightarrow>
          Inr \<lparr>StudentUpdate.first_name = f, StudentUpdate.last_name = l,
               StudentUpdate.email = e, StudentUpdate.password = p,
               model_fields_set = set (filter (\<lambda>k. body k \<noteq> None) StudentUpdate_fields)\<rparr>
      | _ \<Rightarrow> Inl RequestValidationError)"

text \<open>
  \<open>model_dump(exclude_unset=True)\<close>: the declared fields, in declaration order, that
  are in \<open>model_fields_set\<close>, each with its value.
\<close>

definition model_dump_exclude_unset :: "StudentUpdate \<Rightarrow> (string \<times> string option) list" where
  "model_dump_exclude_unset u =
     filter (\<lambda>(k, v). k \<in> model_fields_set u)
       [(''first_name'', StudentUpdate.first_name u),
        (''last_name'', StudentUpdate.last_name u),
        (''email'', StudentUpdate.email u),
        (''password'', StudentUpdate.password u)]"

text \<open>\<open>Student.model_validate(student)\<close> for a \<open>StudentCreate\<close>: the attributes are read over.\<close>

definition Student_model_validate :: "StudentCreate \<Rightarrow> Student" where
  "Student_model_validate c =
     \<lparr>matric_number = Some (StudentBase.matric_number c),
      first_name = Some (StudentBase.first_name c),
      last_name = Some (StudentBase.last_name c),
      email = StudentBase.email c,
      password = Some (StudentCreate.password c)\<rparr>"

text \<open>\<open>setattr(db_student, key, value)\<close>; a name the model does not declare is refused.\<close>

definition setattr :: "Student \<Rightarrow> string \<Rightarrow> string option \<Rightarrow> error + Student" where
  "setattr obj key v =
     (if key = ''matric_number'' then Inr (obj\<lparr>matric_number := v\<rparr>)
      else if key = ''first_name'' then Inr (obj\<lparr>first_name := v\<rparr>)
      else if key = ''last_name'' then Inr (obj\<lparr>last_name := v\<rparr>)
      else if key = ''email'' then Inr (obj\<lparr>email := v\<rparr>)
      else if key = ''password'' then Inr (obj\<lparr>password := v\<rparr>)
      else Inl ValueError)"

text \<open>
  The response model \<open>StudentRead\<close>: the returned object is read into a \<open>StudentRead\<close>
  (the three required fields must hold strings) and that is what is serialised.
\<close>

definition StudentRead_validate :: "Student \<Rightarrow> error + StudentRead" where
  "StudentRead_validate s =
     (case (matric_number s, first_name s, last_name s) of
        (Some m, Some f, Some l) \<Rightarrow>
          Inr \<lparr>StudentBase.matric_number = m, StudentBase.first_name = f,
               StudentBase.last_name = l, StudentBase.email = email s\<rparr>
      | _ \<Rightarrow> Inl ResponseValidationError)"

definition json_of_opt :: "string option \<Rightarrow> json" where
  "json_of_opt v = (case v of None \<Rightarrow> JNull | Some s \<Rightarrow> JString s)"

definition StudentRead_json :: "StudentRead \<Rightarrow> json" where
  "StudentRead_json r =
     JObject [(''matric_number'', JString (StudentBase.matric_number r)),
              (''first_name'', JString (StudentBase.first_name r)),
              (''last_name'', JString (StudentBase.last_name r)),
              (''email'', json_of_opt (StudentBase.email r))]"

definition serialize_StudentRead :: "Student \<Rightarrow> error + json" where
  "serialize_StudentRead s =
     (case StudentRead_validate s of Inl e \<Rightarrow> Inl e | Inr r \<Rightarrow> Inr (StudentRead_json r))"

fun serialize_StudentRead_list :: "Student list \<Rightarrow> error + json list" where
  "serialize_StudentRead_list [] = Inr []"
| "serialize_StudentRead_list (s # rest) =
     (case serialize_StudentRead s of
        Inl e \<Rightarrow> Inl e
      | Inr j \<Rightarrow> (case serialize_StudentRead_list rest of
                    Inl e \<Rightarrow> Inl e
                  | Inr js \<Rightarrow> Inr (j # js)))"

section \<open>The table and the session\<close>

text \<open>
  The store is the single table \<open>student\<close>, its rows in insertion order. The table
  declares \<open>matric_number\<close> as primary key and \<open>first_name\<close>, \<open>last_name\<close>, \<open>password\<close> as
  required columns (\<open>str\<close> without a default); \<open>email\<close> is nullable. Each request works
  in a session of its own, so a session is modelled by the table it reads and commits
  to. A commit that violates a constraint raises \<open>IntegrityError\<close> and leaves the table
  as it was.
\<close>

type_synonym table = "Student list"

definition not_null_ok :: "Student \<Rightarrow> bool" where
  "not_null_ok s \<longleftrightarrow>
     matric_number s \<noteq> None \<and> first_name s \<noteq> None \<and> last_name s \<noteq> None \<and> password s \<noteq> None"

text \<open>\<open>session.get(Student, key)\<close>: the row with that primary key, or \<open>None\<close>.\<close>

definition session_get :: "table \<Rightarrow> string \<Rightarrow> Student option" where
  "session_get tbl key = find (\<lambda>r. matric_number r = Some key) tbl"

text \<open>\<open>session.add(obj); session.commit()\<close> for a new object: an INSERT.\<close>

definition commit_insert :: "table \<Rightarrow> Student \<Rightarrow> error + table" where
  "commit_insert tbl obj =
     (if \<not> not_null_ok obj then Inl IntegrityError
      else if matric_number obj \<in> set (map matric_number tbl) then Inl IntegrityError
      else Inr (tbl @ [obj]))"

text \<open>
  \<open>session.add(obj); session.commit()\<close> for an object loaded under primary key \<open>key\<close>
  and modified since: an UPDATE of the row with that key.
\<close>

definition commit_update :: "table \<Rightarrow> string \<Rightarrow> Student \<Rightarrow> error + table" where
  "commit_update tbl key obj =
     (if \<not> not_null_ok obj then Inl IntegrityError
      else if matric_number obj \<noteq> Some key \<and> matric_number obj \<in> set (map matric_number tbl)
        then Inl IntegrityError
      else Inr (map (\<lambda>r. if matric_number r = Some key then obj else r) tbl))"

text \<open>\<open>session.delete(obj); session.commit()\<close>: a DELETE of the row with that key.\<close>

definition commit_delete :: "table \<Rightarrow> string \<Rightarrow> table" where
  "commit_delete tbl key = filter (\<lambda>r. matric_number r \<noteq> Some key) tbl"

text \<open>\<open>session.refresh(obj)\<close>: the attributes are loaded again from the object's row.\<close>

definition session_refresh :: "table \<Rightarrow> Student \<Rightarrow> error + Student" where
  "session_refresh tbl obj =
     (case matric_number obj of
        None \<Rightarrow> Inl InvalidRequestError
      | Some key \<Rightarrow> (case session_get tbl key of
                      None \<Rightarrow> Inl InvalidRequestError
                    | Some r \<Rightarrow> Inr r))"

section \<open>Persistence gateway (crud.py)\<close>

text \<open>
  Every function takes the table and returns its outcome with the table after the call.
\<close>

definition create_students :: "table \<Rightarrow> StudentCreate \<Rightarrow> (error + Student) \<times> table" where
  "create_students tbl student =
     (let db_student = Student_model_validate student in
      case commit_insert tbl db_student of
        Inl e \<Rightarrow> (Inl e, tbl)
      | Inr tbl' \<Rightarrow> (session_refresh tbl' db_student, tbl'))"

definition get_students :: "table \<Rightarrow> Student list" where
  "get_students tbl = tbl"

definition get_student_by_matric_number :: "table \<Rightarrow> string \<Rightarrow> Student option" where
  "get_student_by_matric_number tbl key = session_get tbl key"

fun setattr_items :: "Student \<Rightarrow> (string \<times> string option) list \<Rightarrow> error + Student" where
  "setattr_items obj [] = Inr obj"
| "setattr_items obj ((key, v) # rest) =
     (case setattr obj key v of
        Inl e \<Rightarrow> Inl e
      | Inr obj' \<Rightarrow> setattr_items obj' rest)"

definition update_student ::
  "table \<Rightarrow> string \<Rightarrow> StudentUpdate \<Rightarrow> (error + Student option) \<times> table" where
  "update_student tbl key student_info_to_update =
     (case session_get tbl key of
        None \<Rightarrow> (Inr None, tbl)
      | Some db_student \<Rightarrow>
          (let info_to_update = model_dump_exclude_unset student_info_to_update in
           case setattr_items db_student info_to_update of
             Inl e \<Rightarrow> (Inl e, tbl)
           | Inr db_student' \<Rightarrow>
               (case commit_update tbl key db_student' of
                  Inl e \<Rightarrow> (Inl e, tbl)
                | Inr tbl' \<Rightarrow>
                    (case session_refresh tbl' db_student' of
                       Inl e \<Rightarrow> (Inl e, tbl')
                     | Inr r \<Rightarrow> (Inr (Some r), tbl')))))"

text \<open>
  \<open>delete_student\<close> returns \<open>None\<close> or the string \<open>"ok"\<close>; \<open>py_value\<close> is the type of what
  a gateway function can hand to its caller.
\<close>

datatype py_value = PyNone | PyStr string | PyStudent Student

fun truthy :: "py_value \<Rightarrow> bool" where
  "truthy PyNone = False"
| "truthy (PyStr s) = (s \<noteq> [])"
| "truthy (PyStudent s) = True"

definition delete_student :: "table \<Rightarrow> string \<Rightarrow> py_value \<times> table" where
  "delete_student tbl key =
     (case session_get tbl key of
        None \<Rightarrow> (PyNone, tbl)
      | Some student \<Rightarrow> (PyStr ''ok'', commit_delete tbl key))"

section \<open>Request handlers (better_app.py)\<close>

text \<open>
  A handler's outcome is the exception that left it or the JSON body it answered with.
  The routes that return students declare \<open>response_model=StudentRead\<close>, so what the
  handler returns goes through \<open>serialize_StudentRead\<close>.
\<close>

type_synonym response = "error + json"

definition create_student :: "table \<Rightarrow> StudentCreate \<Rightarrow> response \<times> table" where
  "create_student tbl student =
     (case create_students tbl student of
        (Inl e, tbl') \<Rightarrow> (Inl e, tbl')
      | (Inr db_student, tbl') \<Rightarrow> (serialize_StudentRead db_student, tbl'))"

definition read_students :: "table \<Rightarrow> response" where
  "read_students tbl =
     (case serialize_StudentRead_list (get_students tbl) of
        Inl e \<Rightarrow> Inl e
      | Inr js \<Rightarrow> Inr (JArray js))"

definition read_student :: "table \<Rightarrow> string \<Rightarrow> response" where
  "read_student tbl key =
     (case get_student_by_matric_number tbl key of
        None \<Rightarrow> Inl (HTTPException 400 ''Student not found'')
      | Some student \<Rightarrow> serialize_StudentRead student)"

definition update_student_handler ::
  "table \<Rightarrow> string \<Rightarrow> StudentUpdate \<Rightarrow> response \<times> table" where
  "update_student_handler tbl key student =
     (case update_student tbl key student of
        (Inl e, tbl') \<Rightarrow> (Inl e, tbl')
      | (Inr None, tbl') \<Rightarrow> (Inl (HTTPException 404 ''Student not found''), tbl')
      | (Inr (Some db_student), tbl') \<Rightarrow> (serialize_StudentRead db_student, tbl'))"

definition delete_student_handler :: "table \<Rightarrow> string \<Rightarrow> response \<times> table" where
  "delete_student_handler tbl key =
     (case delete_student tbl key of
        (student, tbl') \<Rightarrow>
          if \<not> truthy student then (Inl (HTTPException 404 ''Student not found''), tbl')
          else (Inr (JObject [(''ok'', JBool True)]), tbl'))"


definition patch_student :: "table \<Rightarrow> string \<Rightarrow> payload \<Rightarrow> response \<times> table" where
  "patch_student tbl key body =
     (case StudentUpdate_validate body of
        Inl e \<Rightarrow> (Inl e, tbl)
      | Inr student \<Rightarrow> update_student_handler tbl key student)"

text \<open>
  The status line of an outcome: 200 for a body, the status of an \<open>HTTPException\<close>,
  422 for a body that failed validation, 500 for any other exception.
\<close>

fun status_code :: "response \<Rightarrow> nat" where
  "status_code (Inr body) = 200"
| "status_code (Inl (HTTPException code detail)) = code"
| "status_code (Inl RequestValidationError) = 422"
| "status_code (Inl e) = 500"

definition client_error :: "response \<Rightarrow> bool" where
  "client_error r \<longleftrightarrow> 400 \<le> status_code r \<and> status_code r < 500"

section \<open>Request handlers (app.py)\<close>


definition update_student_app ::
  "table \<Rightarrow> string \<Rightarrow> StudentUpdate \<Rightarrow> response \<times> table" where
  "update_student_app tbl key student =
     (case session_get tbl key of
        None \<Rightarrow> (Inl (HTTPException 404 ''Student not found''), tbl)
      | Some db_student \<Rightarrow>
          (let student_data = model_dump_exclude_unset student in
           case setattr_items db_student student_data of
             Inl e \<Rightarrow> (Inl e, tbl)
           | Inr db_student' \<Rightarrow>
               (case commit_update tbl key db_student' of
                  Inl e \<Rightarrow> (Inl e, tbl)
                | Inr tbl' \<Rightarrow>
                    (case session_refresh tbl' db_student' of
                       Inl e \<Rightarrow> (Inl e, tbl')
                     | Inr r \<Rightarrow> (serialize_StudentRead r, tbl')))))"


section \<open>Notions used to state the properties\<close>

text \<open>
  \<open>patched s u\<close> is the object a partial update is expected to leave: each field the
  caller supplied takes the supplied value, every other attribute is that of \<open>s\<close>. That
  the loop of \<open>update_student\<close> computes it is proved below (\<open>setattr_items_model_dump\<close>).
\<close>

definition patched :: "Student \<Rightarrow> StudentUpdate \<Rightarrow> Student" where
  "patched s u =
     s\<lparr>first_name := (if ''first_name'' \<in> model_fields_set u
                       then StudentUpdate.first_name u else first_name s),
       last_name := (if ''last_name'' \<in> model_fields_set u
                      then StudentUpdate.last_name u else last_name s),
       email := (if ''email'' \<in> model_fields_set u
                  then StudentUpdate.email u else email s),
       password := (if ''password'' \<in> model_fields_set u
                     then StudentUpdate.password u else password s)\<rparr>"

text \<open>A key occurs in a JSON value, at any depth.\<close>

fun has_key :: "string \<Rightarrow> json \<Rightarrow> bool" where
  "has_key k (JObject kvs) = (\<exists>kv \<in> set kvs. fst kv = k \<or> has_key k (snd kv))"
| "has_key k (JArray xs) = (\<exists>v \<in> set xs. has_key k v)"
| "has_key k _ = False"


text \<open>A sequence of PATCH requests, each with its path parameter and its body.\<close>

fun patch_all :: "table \<Rightarrow> (string \<times> payload) list \<Rightarrow> table" where
  "patch_all tbl [] = tbl"
| "patch_all tbl ((key, body) # rest) = patch_all (snd (patch_student tbl key body)) rest"

subsection \<open>The records of the test suite\<close>

definition student_adebola :: Student where
  "student_adebola =
     \<lparr>matric_number = Some ''21cg029882'', first_name = Some ''Adebola'',
      last_name = Some ''Odufuwa'', email = None, password = Some ''password''\<rparr>"

definition student_feranmi :: Student where
  "student_feranmi =
     \<lparr>matric_number = Some ''21cg029883'', first_name = Some ''Oluwaferanmi'',
      last_name = Some ''Odufuwa'', email = Some ''adeboladuf@gmail.com'',
      password = Some ''password''\<rparr>"

definition create_adebola :: StudentCreate where
  "create_adebola =
     \<lparr>StudentBase.matric_number = ''21cg029882'', StudentBase.first_name = ''Adebola'',
      StudentBase.last_name = ''Odufuwa'', StudentBase.email = Some ''adeboladuf@gmail.com'',
      StudentCreate.password = ''someone''\<rparr>"


definition patch_email :: StudentUpdate where
  "patch_email =
     \<lparr>StudentUpdate.first_name = None, StudentUpdate.last_name = None,
      StudentUpdate.email = Some ''adeboladuf@gmail.com'', StudentUpdate.password = None,
      model_fields_set = {''email''}\<rparr>"

definition patch_email_null :: StudentUpdate where
  "patch_email_null =
     \<lparr>StudentUpdate.first_name = None, StudentUpdate.last_name = None,
      StudentUpdate.email = None, StudentUpdate.password = None,
      model_fields_set = {''email''}\<rparr>"

definition patch_first_name_null :: StudentUpdate where
  "patch_first_name_null =
     \<lparr>StudentUpdate.first_name = None, StudentUpdate.last_name = None,
      StudentUpdate.email = None, StudentUpdate.password = None,
      model_fields_set = {''first_name''}\<rparr>"

section \<open>Lookups in the table\<close>

lemma session_get_key: "session_get tbl key = Some s \<Longrightarrow> matric_number s = Some key"
  unfolding session_get_def by (induction tbl) (auto split: if_splits)

lemma session_get_None_iff:
  "session_get tbl key = None \<longleftrightarrow> Some key \<notin> set (map matric_number tbl)"
  unfolding session_get_def by (induction tbl) auto

lemma session_get_commit_delete: "session_get (commit_delete tbl key) key = None"
  unfolding session_get_def commit_delete_def by (induction tbl) auto

lemma session_get_commit_delete_other:
  "k \<noteq> key \<Longrightarrow> session_get (commit_delete tbl key) k = session_get tbl k"
  unfolding session_get_def commit_delete_def by (induction tbl) auto

lemma session_get_append_fresh:
  "Some key \<notin> set (map matric_number tbl) \<Longrightarrow> matric_number obj = Some key \<Longrightarrow>
   session_get (tbl @ [obj]) key = Some obj"
  unfolding session_get_def by (induction tbl) auto

lemma session_get_replace_same:
  "matric_number obj = Some key \<Longrightarrow> session_get tbl key = Some s \<Longrightarrow>
   session_get (map (\<lambda>r. if matric_number r = Some key then obj else r) tbl) key = Some obj"
  unfolding session_get_def by (induction tbl) (auto split: if_splits)

lemma session_get_replace_other:
  "matric_number obj = Some key \<Longrightarrow> k \<noteq> key \<Longrightarrow>
   session_get (map (\<lambda>r. if matric_number r = Some key then obj else r) tbl) k = session_get tbl k"
  unfolding session_get_def by (induction tbl) auto

lemma keys_replace:
  "matric_number obj = Some key \<Longrightarrow>
   map matric_number (map (\<lambda>r. if matric_number r = Some key then obj else r) tbl) = map matric_number tbl"
  by (induction tbl) auto

section \<open>Partial update\<close>

lemma setattr_items_model_dump:
  "setattr_items s (model_dump_exclude_unset u) = Inr (patched s u)"
  by (simp add: model_dump_exclude_unset_def setattr_def patched_def)

lemma patched_key: "matric_number (patched s u) = matric_number s"
  by (simp add: patched_def)

lemma update_student_found:
  assumes "session_get tbl key = Some s"
  shows "update_student tbl key u =
           (if not_null_ok (patched s u)
            then (Inr (Some (patched s u)),
                  map (\<lambda>r. if matric_number r = Some key then patched s u else r) tbl)
            else (Inl IntegrityError, tbl))"
proof -
  have k: "matric_number (patched s u) = Some key"
    using assms by (simp add: patched_key session_get_key)
  have g: "session_get (map (\<lambda>r. if matric_number r = Some key then patched s u else r) tbl) key
             = Some (patched s u)"
    using k assms by (rule session_get_replace_same)
  show ?thesis
    by (simp add: update_student_def assms setattr_items_model_dump commit_update_def
        session_refresh_def k g)
qed

lemma update_student_app_eq:
  "update_student_app tbl key u = update_student_handler tbl key u"
  by (simp add: update_student_app_def update_student_handler_def update_student_def
      split: option.splits sum.splits)


text \<open>
  C1, as stated, fails: the update \<open>{"first_name": null}\<close> of an existing student
  has \<open>first_name\<close> among its supplied fields, yet no entity is returned (the commit
  raises \<open>IntegrityError\<close>, in \<open>crud.py\<close> and in \<open>app.py\<close>) and the persisted row
  still has the first name it had.
\<close>

theorem partial_update_counterexample:
  "session_get [student_feranmi] ''21cg029883'' = Some student_feranmi
   \<and> ''first_name'' \<in> model_fields_set patch_first_name_null
   \<and> StudentUpdate.first_name patch_first_name_null = None
   \<and> fst (update_student [student_feranmi] ''21cg029883'' patch_first_name_null)
       = Inl IntegrityError
   \<and> fst (update_student_app [student_feranmi] ''21cg029883'' patch_first_name_null)
       = Inl IntegrityError
   \<and> get_student_by_matric_number
        (snd (update_student [student_feranmi] ''21cg029883'' patch_first_name_null))
        ''21cg029883'' = Some student_feranmi
   \<and> first_name student_feranmi = Some ''Oluwaferanmi''"
proof -
  have g: "session_get [student_feranmi] ''21cg029883'' = Some student_feranmi"
    by (simp add: session_get_def student_feranmi_def)
  have u: "update_student [student_feranmi] ''21cg029883'' patch_first_name_null
             = (Inl IntegrityError, [student_feranmi])"
    by (simp add: update_student_found [OF g] patched_def patch_first_name_null_def
        not_null_ok_def)
  have f: "first_name student_feranmi = Some ''Oluwaferanmi''"
    by (simp add: student_feranmi_def)
  have p: "''first_name'' \<in> model_fields_set patch_first_name_null
         \<and> StudentUpdate.first_name patch_first_name_null = None"
    by (simp add: patch_first_name_null_def)
  show ?thesis
    by (simp add: g u f p update_student_app_eq update_student_handler_def
        get_student_by_matric_number_def)
qed

text \<open>
  C1, amended. For an existing student \<open>s\<close> under \<open>key\<close> and any update \<open>u\<close>, the
  update computes the object \<open>s'\<close> that has the supplied value in every field of
  \<open>model_fields_set u\<close> and the value of \<open>s\<close> in every other attribute. When \<open>s'\<close> has
  no \<open>None\<close> in a required column the update succeeds: \<open>s'\<close> is returned and is the
  persisted row under \<open>key\<close>, every other key reads as before, and the handler of
  \<open>app.py\<close> answers with its read view. When a supplied \<open>None\<close> leaves a required
  column of \<open>s'\<close> empty the commit is refused with \<open>IntegrityError\<close>, nothing is returned
  and the row stays \<open>s\<close>.
\<close>

theorem update_student_frame:
  assumes "session_get tbl key = Some s"
  shows "\<exists>s'. matric_number s' = matric_number s
      \<and> first_name s' = (if ''first_name'' \<in> model_fields_set u
                          then StudentUpdate.first_name u else first_name s)
      \<and> last_name s' = (if ''last_name'' \<in> model_fields_set u
                         then StudentUpdate.last_name u else last_name s)
      \<and> email s' = (if ''email'' \<in> model_fields_set u
                     then StudentUpdate.email u else email s)
      \<and> password s' = (if ''password'' \<in> model_fields_set u
                        then StudentUpdate.password u else password s)
      \<and> (if not_null_ok s'
         then (\<exists>tbl'. update_student tbl key u = (Inr (Some s'), tbl')
                 \<and> update_student_app tbl key u = (serialize_StudentRead s', tbl')
                 \<and> get_student_by_matric_number tbl' key = Some s'
                 \<and> (\<forall>k. k \<noteq> key \<longrightarrow>
                       get_student_by_matric_number tbl' k = get_student_by_matric_number tbl k))
         else update_student tbl key u = (Inl IntegrityError, tbl)
            \<and> update_student_app tbl key u = (Inl IntegrityError, tbl)
            \<and> get_student_by_matric_number tbl key = Some s)"
proof -
  let ?s = "patched s u"
  let ?t = "map (\<lambda>r. if matric_number r = Some key then ?s else r) tbl"
  have k: "matric_number ?s = Some key"
    using assms by (simp add: patched_key session_get_key)
  have u: "update_student tbl key u =
             (if not_null_ok ?s then (Inr (Some ?s), ?t) else (Inl IntegrityError, tbl))"
    using assms by (rule update_student_found)
  have g: "session_get ?t key = Some ?s"
    using k assms by (rule session_get_replace_same)
  have o: "\<forall>k. k \<noteq> key \<longrightarrow> session_get ?t k = session_get tbl k"
    using k by (simp add: session_get_replace_other)
  have fields: "matric_number ?s = matric_number s
      \<and> first_name ?s = (if ''first_name'' \<in> model_fields_set u
                          then StudentUpdate.first_name u else first_name s)
      \<and> last_name ?s = (if ''last_name'' \<in> model_fields_set u
                         then StudentUpdate.last_name u else last_name s)
      \<and> email ?s = (if ''email'' \<in> model_fields_set u
                     then StudentUpdate.email u else email s)
      \<and> password ?s = (if ''password'' \<in> model_fields_set u
                        then StudentUpdate.password u else password s)"
    by (simp add: patched_def)
  show ?thesis
  proof (cases "not_null_ok ?s")
    case True
    have "update_student tbl key u = (Inr (Some ?s), ?t)
        \<and> update_student_app tbl key u = (serialize_StudentRead ?s, ?t)
        \<and> get_student_by_matric_number ?t key = Some ?s
        \<and> (\<forall>k. k \<noteq> key \<longrightarrow>
              get_student_by_matric_number ?t k = get_student_by_matric_number tbl k)"
      using True u g o
      by (simp add: update_student_app_eq update_student_handler_def
          get_student_by_matric_number_def)
    then show ?thesis using True fields by (intro exI[of _ ?s]) auto
  next
    case False
    have "update_student tbl key u = (Inl IntegrityError, tbl)
        \<and> update_student_app tbl key u = (Inl IntegrityError, tbl)
        \<and> get_student_by_matric_number tbl key = Some s"
      using False u assms
      by (simp add: update_student_app_eq update_student_handler_def
          get_student_by_matric_number_def)
    then show ?thesis using False fields by (intro exI[of _ ?s]) auto
  qed
qed

theorem update_student_frame_witness:
  "session_get [student_adebola] ''21cg029882'' = Some student_adebola
   \<and> (\<exists>s' tbl'. update_student [student_adebola] ''21cg029882'' patch_email
                   = (Inr (Some s'), tbl')
         \<and> get_student_by_matric_number tbl' ''21cg029882'' = Some s'
         \<and> matric_number s' = Some ''21cg029882''
         \<and> first_name s' = Some ''Adebola''
         \<and> last_name s' = Some ''Odufuwa''
         \<and> email s' = Some ''adeboladuf@gmail.com''
         \<and> password s' = Some ''password'')"
proof -
  have h: "session_get [student_adebola] ''21cg029882'' = Some student_adebola"
    by (simp add: session_get_def student_adebola_def)
  obtain s' where f: "matric_number s' = Some ''21cg029882''"
      "first_name s' = Some ''Adebola''"
      "last_name s' = Some ''Odufuwa''"
      "email s' = Some ''adeboladuf@gmail.com''"
      "password s' = Some ''password''"
    and r: "if not_null_ok s'
         then (\<exists>tbl'. update_student [student_adebola] ''21cg029882'' patch_email
                        = (Inr (Some s'), tbl')
                 \<and> update_student_app [student_adebola] ''21cg029882'' patch_email
                        = (serialize_StudentRead s', tbl')
                 \<and> get_student_by_matric_number tbl' ''21cg029882'' = Some s'
                 \<and> (\<forall>k. k \<noteq> ''21cg029882'' \<longrightarrow>
                       get_student_by_matric_number tbl' k
                         = get_student_by_matric_number [student_adebola] k))
         else update_student [student_adebola] ''21cg029882'' patch_email
                = (Inl IntegrityError, [student_adebola])
            \<and> update_student_app [student_adebola] ''21cg029882'' patch_email
                = (Inl IntegrityError, [student_adebola])
            \<and> get_student_by_matric_number [student_adebola] ''21cg029882''
                = Some student_adebola"
    using update_student_frame [OF h, of patch_email]
    by (auto simp: patch_email_def student_adebola_def)
  have ok: "not_null_ok s'"
    using f by (simp add: not_null_ok_def)
  from r ok obtain tbl' where
    "update_student [student_adebola] ''21cg029882'' patch_email = (Inr (Some s'), tbl')"
    "get_student_by_matric_number tbl' ''21cg029882'' = Some s'"
    by auto
  with h f show ?thesis by blast
qed

section \<open>Serialisation\<close>

lemma serialize_no_password:
  "serialize_StudentRead s = Inr j \<Longrightarrow> \<not> has_key ''password'' j"
  by (auto simp: serialize_StudentRead_def StudentRead_validate_def StudentRead_json_def
      json_of_opt_def split: option.splits sum.splits)

lemma serialize_list_no_password:
  "serialize_StudentRead_list ss = Inr js \<Longrightarrow> \<forall>j \<in> set js. \<not> has_key ''password'' j"
proof (induction ss arbitrary: js)
  case Nil
  then show ?case by simp
next
  case (Cons s ss)
  then show ?case
    by (auto split: sum.splits dest: serialize_no_password)
qed

lemma model_validate_key:
  "matric_number (Student_model_validate c) = Some (StudentBase.matric_number c)"
  by (simp add: Student_model_validate_def)

lemma model_validate_not_null: "not_null_ok (Student_model_validate c)"
  by (simp add: Student_model_validate_def not_null_ok_def)

lemma create_students_eq:
  "create_students tbl c =
     (if Some (StudentBase.matric_number c) \<in> set (map matric_number tbl)
      then (Inl IntegrityError, tbl)
      else (Inr (Student_model_validate c), tbl @ [Student_model_validate c]))"
proof (cases "Some (StudentBase.matric_number c) \<in> set (map matric_number tbl)")
  case True
  then show ?thesis
    by (simp add: create_students_def commit_insert_def model_validate_key
        model_validate_not_null)
next
  case False
  have "session_get (tbl @ [Student_model_validate c]) (StudentBase.matric_number c)
          = Some (Student_model_validate c)"
    using False model_validate_key by (rule session_get_append_fresh)
  then show ?thesis
    using False
    by (simp add: create_students_def commit_insert_def session_refresh_def Let_def
        model_validate_key model_validate_not_null)
qed

section \<open>What the responses contain\<close>

text \<open>
  C2. Whatever the table, the input and the key, a body answered by the create, list,
  get-by-key or partial-update handler has no \<open>password\<close> key at any depth, although
  every stored row has a password.
\<close>

theorem password_never_in_response:
  "(\<forall>j tbl'. create_student tbl c = (Inr j, tbl') \<longrightarrow> \<not> has_key ''password'' j)
   \<and> (\<forall>j. read_students tbl = Inr j \<longrightarrow> \<not> has_key ''password'' j)
   \<and> (\<forall>j. read_student tbl key = Inr j \<longrightarrow> \<not> has_key ''password'' j)
   \<and> (\<forall>j tbl'. update_student_handler tbl key u = (Inr j, tbl') \<longrightarrow>
         \<not> has_key ''password'' j)"
proof (intro conjI allI impI)
  fix j tbl'
  assume "create_student tbl c = (Inr j, tbl')"
  then show "\<not> has_key ''password'' j"
    by (auto simp: create_student_def split: prod.splits sum.splits
        dest: serialize_no_password)
next
  fix j
  assume "read_students tbl = Inr j"
  then show "\<not> has_key ''password'' j"
    by (auto simp: read_students_def split: sum.splits dest: serialize_list_no_password)
next
  fix j
  assume "read_student tbl key = Inr j"
  then show "\<not> has_key ''password'' j"
    by (auto simp: read_student_def split: option.splits dest: serialize_no_password)
next
  fix j tbl'
  assume "update_student_handler tbl key u = (Inr j, tbl')"
  then show "\<not> has_key ''password'' j"
    by (auto simp: update_student_handler_def split: prod.splits sum.splits option.splits
        dest: serialize_no_password)
qed

theorem password_never_in_response_witness:
  "create_student [student_feranmi] create_adebola
     = (Inr (JObject [(''matric_number'', JString ''21cg029882''),
                      (''first_name'', JString ''Adebola''),
                      (''last_name'', JString ''Odufuwa''),
                      (''email'', JString ''adeboladuf@gmail.com'')]),
        [student_feranmi, Student_model_validate create_adebola])
   \<and> \<not> has_key ''password'' (JObject [(''matric_number'', JString ''21cg029882''),
                      (''first_name'', JString ''Adebola''),
                      (''last_name'', JString ''Odufuwa''),
                      (''email'', JString ''adeboladuf@gmail.com'')])
   \<and> read_students [student_feranmi]
     = Inr (JArray [JObject [(''matric_number'', JString ''21cg029883''),
                      (''first_name'', JString ''Oluwaferanmi''),
                      (''last_name'', JString ''Odufuwa''),
                      (''email'', JString ''adeboladuf@gmail.com'')]])
   \<and> read_student [student_feranmi] ''21cg029883''
     = Inr (JObject [(''matric_number'', JString ''21cg029883''),
                      (''first_name'', JString ''Oluwaferanmi''),
                      (''last_name'', JString ''Odufuwa''),
                      (''email'', JString ''adeboladuf@gmail.com'')])
   \<and> update_student_handler [student_feranmi] ''21cg029883'' patch_email_null
     = (Inr (JObject [(''matric_number'', JString ''21cg029883''),
                      (''first_name'', JString ''Oluwaferanmi''),
                      (''last_name'', JString ''Odufuwa''),
                      (''email'', JNull)]),
        [student_feranmi\<lparr>email := None\<rparr>])"
  using password_never_in_response
          [of "[student_feranmi]" create_adebola "''21cg029883''" patch_email_null]
  by (simp add: create_student_def create_students_eq create_adebola_def
      Student_model_validate_def serialize_StudentRead_def StudentRead_validate_def
      StudentRead_json_def json_of_opt_def read_students_def get_students_def
      student_feranmi_def read_student_def
      get_student_by_matric_number_def session_get_def update_student_handler_def
      update_student_def model_dump_exclude_unset_def patch_email_null_def setattr_def
      commit_update_def not_null_ok_def session_refresh_def)

section \<open>Create, lookup, delete\<close>

text \<open>
  C3. A validated creation input whose key is not in the table is created; and whenever
  \<open>create_students\<close> returns a student, that student carries the input's key and a
  lookup by this key in the table after the call finds a row whose \<open>matric_number\<close>,
  \<open>first_name\<close>, \<open>last_name\<close> and \<open>email\<close> are those of the input.
\<close>

theorem create_then_get_round_trip:
  "(Some (StudentBase.matric_number c) \<notin> set (map matric_number tbl) \<longrightarrow>
      (\<exists>s tbl'. create_students tbl c = (Inr s, tbl')))
   \<and> (\<forall>s tbl'. create_students tbl c = (Inr s, tbl') \<longrightarrow>
         matric_number s = Some (StudentBase.matric_number c)
       \<and> (\<exists>s'. get_student_by_matric_number tbl' (StudentBase.matric_number c) = Some s'
             \<and> matric_number s' = Some (StudentBase.matric_number c)
             \<and> first_name s' = Some (StudentBase.first_name c)
             \<and> last_name s' = Some (StudentBase.last_name c)
             \<and> email s' = StudentBase.email c))"
proof (intro conjI allI impI)
  assume "Some (StudentBase.matric_number c) \<notin> set (map matric_number tbl)"
  then show "\<exists>s tbl'. create_students tbl c = (Inr s, tbl')"
    by (simp add: create_students_eq)
next
  fix s tbl'
  assume a: "create_students tbl c = (Inr s, tbl')"
  then have fresh: "Some (StudentBase.matric_number c) \<notin> set (map matric_number tbl)"
    and s: "s = Student_model_validate c" and t: "tbl' = tbl @ [s]"
    by (auto simp: create_students_eq split: if_splits)
  show "matric_number s = Some (StudentBase.matric_number c)"
    by (simp add: s model_validate_key)
  have "session_get tbl' (StudentBase.matric_number c) = Some s"
    unfolding t using fresh by (rule session_get_append_fresh) (simp add: s model_validate_key)
  then show "\<exists>s'. get_student_by_matric_number tbl' (StudentBase.matric_number c) = Some s'
             \<and> matric_number s' = Some (StudentBase.matric_number c)
             \<and> first_name s' = Some (StudentBase.first_name c)
             \<and> last_name s' = Some (StudentBase.last_name c)
             \<and> email s' = StudentBase.email c"
    by (simp add: get_student_by_matric_number_def s Student_model_validate_def)
qed

theorem create_then_get_round_trip_witness:
  "Some (StudentBase.matric_number create_adebola) \<notin> set (map matric_number [student_feranmi])
   \<and> (\<exists>s tbl'. create_students [student_feranmi] create_adebola = (Inr s, tbl')
        \<and> (\<exists>s'. get_student_by_matric_number tbl' ''21cg029882'' = Some s'
              \<and> matric_number s' = Some ''21cg029882''
              \<and> first_name s' = Some ''Adebola''
              \<and> last_name s' = Some ''Odufuwa''
              \<and> email s' = Some ''adeboladuf@gmail.com''))"
proof -
  have h: "Some (StudentBase.matric_number create_adebola)
             \<notin> set (map matric_number [student_feranmi])"
    by (simp add: create_adebola_def student_feranmi_def)
  note rt = create_then_get_round_trip [of create_adebola "[student_feranmi]"]
  from rt h obtain s tbl' where
    c: "create_students [student_feranmi] create_adebola = (Inr s, tbl')"
    by blast
  with rt have "\<exists>s'. get_student_by_matric_number tbl'
                        (StudentBase.matric_number create_adebola) = Some s'
             \<and> matric_number s' = Some (StudentBase.matric_number create_adebola)
             \<and> first_name s' = Some (StudentBase.first_name create_adebola)
             \<and> last_name s' = Some (StudentBase.last_name create_adebola)
             \<and> email s' = StudentBase.email create_adebola"
    by blast
  then have "\<exists>s'. get_student_by_matric_number tbl' ''21cg029882'' = Some s'
              \<and> matric_number s' = Some ''21cg029882''
              \<and> first_name s' = Some ''Adebola''
              \<and> last_name s' = Some ''Odufuwa''
              \<and> email s' = Some ''adeboladuf@gmail.com''"
    by (simp add: create_adebola_def)
  with h c show ?thesis by blast
qed

text \<open>
  C4. For a key with no row, the lookup returns \<open>None\<close> and its handler raises the
  \<open>HTTPException\<close> 400; the update returns \<open>None\<close> and the delete returns \<open>None\<close>, both
  with the table as it was, and their handlers raise the \<open>HTTPException\<close> 404. All three
  statuses are client errors.
\<close>

theorem absent_key_reports_not_found:
  assumes "Some key \<notin> set (map matric_number tbl)"
  shows "get_student_by_matric_number tbl key = None
       \<and> read_student tbl key = Inl (HTTPException 400 ''Student not found'')
       \<and> client_error (read_student tbl key)
       \<and> update_student tbl key u = (Inr None, tbl)
       \<and> update_student_handler tbl key u = (Inl (HTTPException 404 ''Student not found''), tbl)
       \<and> client_error (fst (update_student_handler tbl key u))
       \<and> delete_student tbl key = (PyNone, tbl)
       \<and> delete_student_handler tbl key = (Inl (HTTPException 404 ''Student not found''), tbl)
       \<and> client_error (fst (delete_student_handler tbl key))"
proof -
  have g: "session_get tbl key = None"
    using assms by (simp add: session_get_None_iff)
  show ?thesis
    by (simp add: g get_student_by_matric_number_def read_student_def update_student_def
        update_student_handler_def delete_student_def delete_student_handler_def
        client_error_def)
qed

theorem absent_key_reports_not_found_witness:
  "Some ''21cg029882'' \<notin> set (map matric_number [student_feranmi])
   \<and> read_student [student_feranmi] ''21cg029882''
       = Inl (HTTPException 400 ''Student not found'')
   \<and> update_student_handler [student_feranmi] ''21cg029882'' patch_email
       = (Inl (HTTPException 404 ''Student not found''), [student_feranmi])
   \<and> delete_student_handler [student_feranmi] ''21cg029882''
       = (Inl (HTTPException 404 ''Student not found''), [student_feranmi])"
proof -
  have h: "Some ''21cg029882'' \<notin> set (map matric_number [student_feranmi])"
    by (simp add: student_feranmi_def)
  show ?thesis
    using h absent_key_reports_not_found [OF h, of patch_email] by simp
qed

text \<open>
  C6. Whenever the delete succeeds (the gateway returns a truthy value, the handler answers
  with a body), a lookup of the same key in the table after the call returns \<open>None\<close>,
  and the get-by-key handler raises its not-found \<open>HTTPException\<close>.
\<close>

theorem delete_then_get_absent:
  "(\<forall>r tbl'. delete_student tbl key = (r, tbl') \<and> truthy r \<longrightarrow>
       get_student_by_matric_number tbl' key = None)
   \<and> (\<forall>j tbl'. delete_student_handler tbl key = (Inr j, tbl') \<longrightarrow>
         get_student_by_matric_number tbl' key = None
       \<and> read_student tbl' key = Inl (HTTPException 400 ''Student not found''))"
  by (auto simp: delete_student_def delete_student_handler_def read_student_def
      get_student_by_matric_number_def session_get_commit_delete
      split: option.splits if_splits)

theorem delete_then_get_absent_witness:
  "delete_student [student_adebola, student_feranmi] ''21cg029882''
     = (PyStr ''ok'', [student_feranmi])
   \<and> truthy (PyStr ''ok'')
   \<and> get_student_by_matric_number [student_feranmi] ''21cg029882'' = None
   \<and> delete_student_handler [student_adebola, student_feranmi] ''21cg029882''
     = (Inr (JObject [(''ok'', JBool True)]), [student_feranmi])
   \<and> read_student [student_feranmi] ''21cg029882''
     = Inl (HTTPException 400 ''Student not found'')"
proof -
  have d: "delete_student [student_adebola, student_feranmi] ''21cg029882''
             = (PyStr ''ok'', [student_feranmi])"
    by (simp add: delete_student_def session_get_def commit_delete_def student_adebola_def
        student_feranmi_def)
  have h: "delete_student_handler [student_adebola, student_feranmi] ''21cg029882''
             = (Inr (JObject [(''ok'', JBool True)]), [student_feranmi])"
    by (simp add: delete_student_handler_def d)
  show ?thesis
    using d h delete_then_get_absent [of "[student_adebola, student_feranmi]" "''21cg029882''"]
    by simp
qed

text \<open>
  C7, as stated, fails: deleting the only row of a table returns the string \<open>"ok"\<close>,
  which is not the student that was removed.
\<close>

theorem delete_returns_entity_counterexample:
  "session_get [student_adebola] ''21cg029882'' = Some student_adebola
   \<and> fst (delete_student [student_adebola] ''21cg029882'') = PyStr ''ok''
   \<and> fst (delete_student [student_adebola] ''21cg029882'') \<noteq> PyStudent student_adebola"
  by (simp add: delete_student_def session_get_def student_adebola_def)

text \<open>
  C7, amended. For a key that has a row, \<open>delete_student\<close> removes the row (a lookup
  of the key afterwards returns \<open>None\<close>, every other key reads as before) and returns the
  acknowledgment \<open>"ok"\<close>; the handler answers \<open>{"ok": true}\<close>.
\<close>

theorem delete_removes_row_returns_ok:
  assumes "session_get tbl key = Some s"
  shows "\<exists>tbl'. delete_student tbl key = (PyStr ''ok'', tbl')
       \<and> delete_student_handler tbl key = (Inr (JObject [(''ok'', JBool True)]), tbl')
       \<and> session_get tbl' key = None
       \<and> (\<forall>k. k \<noteq> key \<longrightarrow> session_get tbl' k = session_get tbl k)"
  using assms
  by (simp add: delete_student_def delete_student_handler_def session_get_commit_delete
      session_get_commit_delete_other)

theorem delete_removes_row_returns_ok_witness:
  "session_get [student_adebola, student_feranmi] ''21cg029882'' = Some student_adebola
   \<and> (\<exists>tbl'. delete_student [student_adebola, student_feranmi] ''21cg029882''
                = (PyStr ''ok'', tbl')
        \<and> session_get tbl' ''21cg029882'' = None
        \<and> session_get tbl' ''21cg029883'' = Some student_feranmi)"
proof -
  have h: "session_get [student_adebola, student_feranmi] ''21cg029882''
             = Some student_adebola"
    by (simp add: session_get_def student_adebola_def)
  have o: "session_get [student_adebola, student_feranmi] ''21cg029883''
             = Some student_feranmi"
    by (simp add: session_get_def student_adebola_def student_feranmi_def)
  from delete_removes_row_returns_ok [OF h] obtain tbl' where
    "delete_student [student_adebola, student_feranmi] ''21cg029882'' = (PyStr ''ok'', tbl')"
    "session_get tbl' ''21cg029882'' = None"
    "\<forall>k. k \<noteq> ''21cg029882'' \<longrightarrow>
       session_get tbl' k = session_get [student_adebola, student_feranmi] k"
    by blast
  with h o show ?thesis by auto
qed

section \<open>An explicit null in an update\<close>

text \<open>
  C5, as stated, fails: the body \<open>{"first_name": null}\<close> validates to an update with
  \<open>first_name\<close> supplied as \<open>None\<close>, and the update of an existing student with it does
  not succeed: the commit raises \<open>IntegrityError\<close> and the row is left as it was.
\<close>

theorem explicit_null_counterexample:
  "session_get [student_adebola] ''21cg029882'' = Some student_adebola
   \<and> StudentUpdate_validate [''first_name'' \<mapsto> JNull] = Inr patch_first_name_null
   \<and> update_student [student_adebola] ''21cg029882'' patch_first_name_null
       = (Inl IntegrityError, [student_adebola])
   \<and> patch_student [student_adebola] ''21cg029882'' [''first_name'' \<mapsto> JNull]
       = (Inl IntegrityError, [student_adebola])"
proof -
  have v: "StudentUpdate_validate [''first_name'' \<mapsto> JNull] = Inr patch_first_name_null"
    by (simp add: StudentUpdate_validate_def StudentUpdate_fields_def
        patch_first_name_null_def)
  have g: "session_get [student_adebola] ''21cg029882'' = Some student_adebola"
    by (simp add: session_get_def student_adebola_def)
  have u: "update_student [student_adebola] ''21cg029882'' patch_first_name_null
             = (Inl IntegrityError, [student_adebola])"
    by (simp add: update_student_found [OF g] patched_def patch_first_name_null_def
        not_null_ok_def)
  show ?thesis
    by (simp add: g v u patch_student_def update_student_handler_def)
qed

text \<open>
  C5, amended. For an existing student whose row satisfies the required columns: an
  update that supplies \<open>email\<close> as \<open>None\<close> and no \<open>None\<close> for \<open>first_name\<close>, \<open>last_name\<close>
  or \<open>password\<close> succeeds, and the returned and persisted student has \<open>email = None\<close>;
  an update that supplies \<open>None\<close> for \<open>first_name\<close>, \<open>last_name\<close> or \<open>password\<close> is not
  rejected by validation, reaches the commit and is refused there with
  \<open>IntegrityError\<close>, the table unchanged.
\<close>

theorem update_student_explicit_null:
  assumes "session_get tbl key = Some s" and "not_null_ok s"
  shows "(''email'' \<in> model_fields_set u \<and> StudentUpdate.email u = None
          \<and> (''first_name'' \<in> model_fields_set u \<longrightarrow> StudentUpdate.first_name u \<noteq> None)
          \<and> (''last_name'' \<in> model_fields_set u \<longrightarrow> StudentUpdate.last_name u \<noteq> None)
          \<and> (''password'' \<in> model_fields_set u \<longrightarrow> StudentUpdate.password u \<noteq> None)
          \<longrightarrow> (\<exists>s' tbl'. update_student tbl key u = (Inr (Some s'), tbl')
                  \<and> email s' = None
                  \<and> get_student_by_matric_number tbl' key = Some s'))
       \<and> ((''first_name'' \<in> model_fields_set u \<and> StudentUpdate.first_name u = None)
          \<or> (''last_name'' \<in> model_fields_set u \<and> StudentUpdate.last_name u = None)
          \<or> (''password'' \<in> model_fields_set u \<and> StudentUpdate.password u = None)
          \<longrightarrow> update_student tbl key u = (Inl IntegrityError, tbl))"
proof (intro conjI impI)
  assume a: "''email'' \<in> model_fields_set u \<and> StudentUpdate.email u = None
          \<and> (''first_name'' \<in> model_fields_set u \<longrightarrow> StudentUpdate.first_name u \<noteq> None)
          \<and> (''last_name'' \<in> model_fields_set u \<longrightarrow> StudentUpdate.last_name u \<noteq> None)
          \<and> (''password'' \<in> model_fields_set u \<longrightarrow> StudentUpdate.password u \<noteq> None)"
  let ?s = "patched s u"
  let ?t = "map (\<lambda>r. if matric_number r = Some key then ?s else r) tbl"
  have ok: "not_null_ok ?s"
    using a assms(2) by (simp add: not_null_ok_def patched_def)
  have k: "matric_number ?s = Some key"
    using assms(1) by (simp add: patched_key session_get_key)
  have g: "session_get ?t key = Some ?s"
    using k assms(1) by (rule session_get_replace_same)
  have e: "email ?s = None"
    using a by (simp add: patched_def)
  have "update_student tbl key u = (Inr (Some ?s), ?t)"
    using ok by (simp add: update_student_found [OF assms(1)])
  with g e show "\<exists>s' tbl'. update_student tbl key u = (Inr (Some s'), tbl')
                  \<and> email s' = None
                  \<and> get_student_by_matric_number tbl' key = Some s'"
    by (simp add: get_student_by_matric_number_def)
next
  assume "(''first_name'' \<in> model_fields_set u \<and> StudentUpdate.first_name u = None)
          \<or> (''last_name'' \<in> model_fields_set u \<and> StudentUpdate.last_name u = None)
          \<or> (''password'' \<in> model_fields_set u \<and> StudentUpdate.password u = None)"
  then have "\<not> not_null_ok (patched s u)"
    by (auto simp: not_null_ok_def patched_def)
  then show "update_student tbl key u = (Inl IntegrityError, tbl)"
    by (simp add: update_student_found [OF assms(1)])
qed

theorem update_student_explicit_null_witness:
  "session_get [student_feranmi] ''21cg029883'' = Some student_feranmi
   \<and> not_null_ok student_feranmi
   \<and> (\<exists>s' tbl'. update_student [student_feranmi] ''21cg029883'' patch_email_null
                   = (Inr (Some s'), tbl')
         \<and> email s' = None
         \<and> get_student_by_matric_number tbl' ''21cg029883'' = Some s')
   \<and> update_student [student_feranmi] ''21cg029883'' patch_first_name_null
       = (Inl IntegrityError, [student_feranmi])"
proof -
  have h1: "session_get [student_feranmi] ''21cg029883'' = Some student_feranmi"
    by (simp add: session_get_def student_feranmi_def)
  have h2: "not_null_ok student_feranmi"
    by (simp add: not_null_ok_def student_feranmi_def)
  show ?thesis
    using h1 h2
      update_student_explicit_null [OF h1 h2, of patch_email_null]
      update_student_explicit_null [OF h1 h2, of patch_first_name_null]
    by (simp add: patch_email_null_def patch_first_name_null_def)
qed

section \<open>Creation under an existing key\<close>

text \<open>
  C8, as stated, fails: creating a student under a key that has a row raises
  \<open>IntegrityError\<close>, which no handler catches; the status is 500, not a client error.
\<close>

theorem duplicate_key_counterexample:
  "Some (StudentBase.matric_number create_adebola) \<in> set (map matric_number [student_adebola])
   \<and> create_student [student_adebola] create_adebola = (Inl IntegrityError, [student_adebola])
   \<and> status_code (fst (create_student [student_adebola] create_adebola)) = 500
   \<and> \<not> client_error (fst (create_student [student_adebola] create_adebola))"
  by (simp add: create_student_def create_students_eq create_adebola_def student_adebola_def
      client_error_def)

text \<open>
  C8, amended. For a creation input whose key already has a row, the commit is refused
  with \<open>IntegrityError\<close>; the gateway and the handler let it through uncaught (status
  500), and the table, the existing row included, is unchanged.
\<close>

theorem duplicate_key_refused_uncaught:
  assumes "Some (StudentBase.matric_number c) \<in> set (map matric_number tbl)"
  shows "create_students tbl c = (Inl IntegrityError, tbl)
       \<and> create_student tbl c = (Inl IntegrityError, tbl)
       \<and> status_code (fst (create_student tbl c)) = 500"
  using assms by (simp add: create_student_def create_students_eq)

theorem duplicate_key_refused_uncaught_witness:
  "Some (StudentBase.matric_number create_adebola) \<in> set (map matric_number [student_adebola])
   \<and> create_students [student_adebola] create_adebola = (Inl IntegrityError, [student_adebola])
   \<and> create_student [student_adebola] create_adebola = (Inl IntegrityError, [student_adebola])"
proof -
  have h: "Some (StudentBase.matric_number create_adebola)
             \<in> set (map matric_number [student_adebola])"
    by (simp add: create_adebola_def student_adebola_def)
  show ?thesis
    using h duplicate_key_refused_uncaught [OF h] by simp
qed

lemma update_student_keys:
  "map matric_number (snd (update_student tbl key u)) = map matric_number tbl"
proof (cases "session_get tbl key")
  case None
  then show ?thesis by (simp add: update_student_def)
next
  case (Some s)
  have "matric_number (patched s u) = Some key"
    using Some by (simp add: patched_key session_get_key)
  then show ?thesis
    by (simp add: update_student_found [OF Some] keys_replace del: map_map)
qed

lemma update_student_handler_snd:
  "snd (update_student_handler tbl key u) = snd (update_student tbl key u)"
  by (simp add: update_student_handler_def split: prod.splits sum.splits option.splits)

lemma patch_student_keys:
  "map matric_number (snd (patch_student tbl key body)) = map matric_number tbl"
  by (simp add: patch_student_def update_student_handler_snd update_student_keys
      split: sum.splits)

section \<open>The primary key under updates\<close>

text \<open>
  C9. No update changes a primary key: after \<open>update_student\<close> with any key and any
  update object, and after any sequence of PATCH requests with any bodies (bodies with a
  \<open>matric_number\<close> key among them), the rows of the table carry, position by position,
  the \<open>matric_number\<close> they carried before.
\<close>

theorem matric_number_immutable:
  "map matric_number (snd (update_student tbl key u)) = map matric_number tbl
   \<and> map matric_number (patch_all tbl ps) = map matric_number tbl"
proof
  show "map matric_number (snd (update_student tbl key u)) = map matric_number tbl"
    by (rule update_student_keys)
  show "map matric_number (patch_all tbl ps) = map matric_number tbl"
  proof (induction ps arbitrary: tbl)
    case Nil
    then show ?case by simp
  next
    case (Cons p ps)
    obtain k b where p: "p = (k, b)" by (cases p)
    show ?case
      by (simp add: p Cons.IH patch_student_keys)
  qed
qed

theorem matric_number_immutable_witness:
  "patch_all [student_adebola, student_feranmi]
     [(''21cg029882'', [''matric_number'' \<mapsto> JString ''21cg029883'',
                        ''email'' \<mapsto> JString ''adeboladuf@gmail.com'']),
      (''21cg029883'', [''matric_number'' \<mapsto> JNull, ''first_name'' \<mapsto> JString ''Feranmi''])]
     = [student_adebola\<lparr>email := Some ''adeboladuf@gmail.com''\<rparr>,
        student_feranmi\<lparr>first_name := Some ''Feranmi''\<rparr>]
   \<and> map matric_number (patch_all [student_adebola, student_feranmi]
     [(''21cg029882'', [''matric_number'' \<mapsto> JString ''21cg029883'',
                        ''email'' \<mapsto> JString ''adeboladuf@gmail.com'']),
      (''21cg029883'', [''matric_number'' \<mapsto> JNull, ''first_name'' \<mapsto> JString ''Feranmi''])])
     = [Some ''21cg029882'', Some ''21cg029883'']"
  using matric_number_immutable [of "[student_adebola, student_feranmi]" "''21cg029882''"
      patch_email
      "[(''21cg029882'', [''matric_number'' \<mapsto> JString ''21cg029883'',
                        ''email'' \<mapsto> JString ''adeboladuf@gmail.com'']),
      (''21cg029883'', [''matric_number'' \<mapsto> JNull, ''first_name'' \<mapsto> JString ''Feranmi''])]"]
  by (simp add: patch_student_def StudentUpdate_validate_def StudentUpdate_fields_def
      update_student_handler_def update_student_def session_get_def
      model_dump_exclude_unset_def setattr_def commit_update_def not_null_ok_def
      session_refresh_def student_adebola_def student_feranmi_def)




section \<open>Undeclared keys in a creation body\<close>



end
